theory Spec2Isabelle
  imports Main "HOL-Library.Word"
begin

text \<open>
  A shallow embedding of the MinIO admin client's legacy health report accessors and of
  its \<^verbatim>\<open>Inspect\<close> call, which downloads a raw file from a drive of a server. All
  definitions come first; the facts proved about them follow.
\<close>

type_synonym byte = "8 word"
type_synonym uint64 = "64 word"

section \<open>Health information\<close>

subsection \<open>The version 2 report and its accessors\<close>

text \<open>
  \<^verbatim>\<open>HealthInfoV2\<close>. The types \<^verbatim>\<open>time.Time\<close>, \<^verbatim>\<open>SysInfo\<close>, \<^verbatim>\<open>PerfInfo\<close> and
  \<^verbatim>\<open>MinioHealthInfo\<close> are only carried by the accessors, never inspected, so they are
  type parameters of the record.
\<close>

record ('time, 'sys, 'perf, 'minio) HealthInfoV2 =
  Version :: string
  Error :: string
  TimeStamp :: 'time
  Sys :: 'sys
  Perf :: 'perf
  Minio :: 'minio

definition GetError :: "('time, 'sys, 'perf, 'minio) HealthInfoV2 \<Rightarrow> string" where
  "GetError info = Error info"

definition GetStatus :: "('time, 'sys, 'perf, 'minio) HealthInfoV2 \<Rightarrow> string" where
  "GetStatus info = (if Error info \<noteq> [] then ''error'' else ''success'')"

definition GetTimestamp :: "('time, 'sys, 'perf, 'minio) HealthInfoV2 \<Rightarrow> 'time" where
  "GetTimestamp info = TimeStamp info"

subsection \<open>Disk usage counters of one node\<close>

text \<open>
  \<^verbatim>\<open>diskhw.UsageStat\<close> is a struct of the gopsutil library. The capacity getters read its
  three \<^verbatim>\<open>uint64\<close> byte counters; the path and the file-system type are kept, the
  inode counters and the percentages are not read by any function here.
\<close>

record UsageStat =
  Path :: string
  Fstype :: string
  Total :: uint64
  Free :: uint64
  Used :: uint64

text \<open>
  \<^verbatim>\<open>ServerDiskHwInfo.Usage\<close> has the type \<^verbatim>\<open>[]*diskhw.UsageStat\<close>: every entry is a
  pointer, and \<open>None\<close> is the nil pointer. The partitions and the I/O counters are not read
  by the getters and are left out of the record. The field \<^verbatim>\<open>Error\<close> of the Go struct is
  \<open>DiskHwError\<close> here, the report above having taken the name.
\<close>

record ServerDiskHwInfo =
  Addr :: string
  Usage :: "UsageStat option list"
  DiskHwError :: string

text \<open>A Go run-time panic, as a value.\<close>

datatype panic = NilPointerDereference

text \<open>
  The loop \<^verbatim>\<open>for _, u := range s.Usage { capacity += u.Total }\<close>, with the named result
  \<^verbatim>\<open>capacity\<close> as accumulator. Reading a field through a nil \<^verbatim>\<open>u\<close> panics; \<open>+\<close> on
  \<^typ>\<open>uint64\<close> wraps around as Go's unsigned addition does. The three getters differ only
  in the field they read, which is the first argument. The receiver is taken by value: the
  getters are called on a report that exists.
\<close>

fun range_Usage :: "(UsageStat \<Rightarrow> uint64) \<Rightarrow> UsageStat option list \<Rightarrow> uint64 \<Rightarrow> panic + uint64" where
  "range_Usage field [] capacity = Inr capacity"
| "range_Usage field (None # us) capacity = Inl NilPointerDereference"
| "range_Usage field (Some u # us) capacity = range_Usage field us (capacity + field u)"

definition GetTotalCapacity :: "ServerDiskHwInfo \<Rightarrow> panic + uint64" where
  "GetTotalCapacity s = range_Usage Total (Usage s) 0"

definition GetTotalFreeCapacity :: "ServerDiskHwInfo \<Rightarrow> panic + uint64" where
  "GetTotalFreeCapacity s = range_Usage Free (Usage s) 0"

definition GetTotalUsedCapacity :: "ServerDiskHwInfo \<Rightarrow> panic + uint64" where
  "GetTotalUsedCapacity s = range_Usage Used (Usage s) 0"

text \<open>The usage list of the specification's example, and a list that overflows.\<close>

definition example_usage :: "UsageStat list" where
  "example_usage =
     [\<lparr>Path = ''/a'', Fstype = ''xfs'', Total = 100, Free = 40, Used = 60\<rparr>,
      \<lparr>Path = ''/b'', Fstype = ''xfs'', Total = 50, Free = 10, Used = 40\<rparr>]"

definition huge_usage :: "UsageStat list" where
  "huge_usage =
     [\<lparr>Path = ''/a'', Fstype = ''xfs'', Total = 18446744073709551615,
       Free = 18446744073709551615, Used = 18446744073709551615\<rparr>,
      \<lparr>Path = ''/b'', Fstype = ''xfs'', Total = 2, Free = 3, Used = 4\<rparr>]"

section \<open>Inspect\<close>

subsection \<open>Errors, streams and the buffered reader\<close>

text \<open>
  Go's \<^verbatim>\<open>error\<close> values that \<^verbatim>\<open>Inspect\<close> can return. \<open>ErrorResponse code\<close> is an
  error made from a response with that status code. \<open>OtherError\<close> is any further error
  of the transport: a refused or reset connection, a cancelled context.
\<close>

datatype error =
    EOF
  | ErrUnexpectedEOF
  | ErrInvalidUnreadByte
  | errors_New string
  | ErrorResponse int
  | OtherError string

text \<open>
  The body of a response is an \<^verbatim>\<open>io.ReadCloser\<close>: the bytes it still delivers, and the
  error its \<^verbatim>\<open>Read\<close> returns once they are used up (\<open>EOF\<close> for a complete body, another
  error for a connection that breaks).
\<close>

record ReadCloser =
  pending :: "byte list"
  final :: error

record Response =
  StatusCode :: int
  Body :: ReadCloser

text \<open>
  \<^verbatim>\<open>bufio.Reader\<close> of the Go library, seen through the bytes it delivers: \<open>rd\<close> is the
  stream that is still unread, buffered or not, and \<open>lastByte\<close> is the library's field of
  that name: the last byte read, or \<open>-1\<close>. A reader is created with no last byte. The
  size of the buffer decides only how the bytes are fetched from the body, not which
  bytes the reader delivers.
\<close>

record Reader =
  rd :: ReadCloser
  lastByte :: int

definition NewReaderSize :: "ReadCloser \<Rightarrow> nat \<Rightarrow> Reader" where
  "NewReaderSize r sz = \<lparr>rd = r, lastByte = -1\<rparr>"

text \<open>\<^verbatim>\<open>ReadByte\<close> returns the next byte and remembers it, or the error of the stream.\<close>

definition ReadByte :: "Reader \<Rightarrow> (error + byte) \<times> Reader" where
  "ReadByte b =
     (case pending (rd b) of
        [] \<Rightarrow> (Inl (final (rd b)), b)
      | c # cs \<Rightarrow> (Inr c, b\<lparr>rd := (rd b)\<lparr>pending := cs\<rparr>, lastByte := uint c\<rparr>))"

text \<open>
  \<^verbatim>\<open>UnreadByte\<close> fails with \<^verbatim>\<open>ErrInvalidUnreadByte\<close> unless the most recent operation
  read a byte; otherwise it puts that byte back in front of the stream and forgets it.
\<close>

definition UnreadByte :: "Reader \<Rightarrow> error option \<times> Reader" where
  "UnreadByte b =
     (if lastByte b < 0 then (Some ErrInvalidUnreadByte, b)
      else (None, b\<lparr>rd := (rd b)\<lparr>pending := word_of_int (lastByte b) # pending (rd b)\<rparr>,
                     lastByte := -1\<rparr>))"

text \<open>
  \<^verbatim>\<open>io.ReadFull(r, buf)\<close> with a buffer of \<open>n\<close> bytes: it reads until the buffer is full.
  When the stream ends early the error is that of the stream, except that \<open>EOF\<close> after
  at least one byte becomes \<^verbatim>\<open>ErrUnexpectedEOF\<close>.
\<close>

definition ReadFull :: "Reader \<Rightarrow> nat \<Rightarrow> (error + byte list) \<times> Reader" where
  "ReadFull b n =
     (let p = pending (rd b) in
      if n \<le> length p then
        (Inr (take n p),
         b\<lparr>rd := (rd b)\<lparr>pending := drop n p\<rparr>,
           lastByte := (if n = 0 then lastByte b else uint (p ! (n - 1)))\<rparr>)
      else
        (Inl (if p \<noteq> [] \<and> final (rd b) = EOF then ErrUnexpectedEOF else final (rd b)),
         b\<lparr>rd := (rd b)\<lparr>pending := []\<rparr>,
           lastByte := (if p = [] then lastByte b else uint (last p))\<rparr>))"

text \<open>
  \<^verbatim>\<open>closeWrapper\<close> joins the \<^verbatim>\<open>Read\<close> of one value with the \<^verbatim>\<open>Close\<close> of another.
\<close>

record closeWrapper =
  Reader :: Reader
  Closer :: ReadCloser

text \<open>
  What a caller reads from the wrapper: \<^verbatim>\<open>io.ReadAll\<close> gives every byte that is left,
  and the error of the stream unless that is \<open>EOF\<close>.
\<close>

definition ReadAll :: "closeWrapper \<Rightarrow> byte list \<times> error option" where
  "ReadAll c =
     (pending (rd (Reader c)),
      if final (rd (Reader c)) = EOF then None else Some (final (rd (Reader c))))"

subsection \<open>The request\<close>

text \<open>
  \<^verbatim>\<open>url.Values\<close> and \<^verbatim>\<open>http.Header\<close> are maps from a key to a list of values, here
  association lists with one entry for each key. \<^verbatim>\<open>Set\<close> replaces the values of a key
  by one value. The only header key set below, \<^verbatim>\<open>Content-Type\<close>, is in canonical form
  already.
\<close>

type_synonym Values = "(string \<times> string list) list"

fun Values_Set :: "Values \<Rightarrow> string \<Rightarrow> string \<Rightarrow> Values" where
  "Values_Set [] key val = [(key, [val])]"
| "Values_Set ((k, vs) # v) key val =
     (if k = key then (key, [val]) # v else (k, vs) # Values_Set v key val)"

text \<open>\<^verbatim>\<open>base64.StdEncoding.EncodeToString\<close>: three bytes become four characters, padded with \<open>=\<close>.\<close>

definition encodeStd :: string where
  "encodeStd = ''ABCDEFGHIJKLMNOPQRSTUVWXYZabcdefghijklmnopqrstuvwxyz0123456789+/''"

definition enc64 :: "nat \<Rightarrow> char" where
  "enc64 v = encodeStd ! (v mod 64)"

fun EncodeToString :: "byte list \<Rightarrow> string" where
  "EncodeToString [] = []"
| "EncodeToString [a] =
     (let v = unat a * 65536
      in [enc64 (v div 262144), enc64 (v div 4096), CHR ''='', CHR ''=''])"
| "EncodeToString [a, b] =
     (let v = unat a * 65536 + unat b * 256
      in [enc64 (v div 262144), enc64 (v div 4096), enc64 (v div 64), CHR ''=''])"
| "EncodeToString (a # b # c # src) =
     (let v = unat a * 65536 + unat b * 256 + unat c
      in enc64 (v div 262144) # enc64 (v div 4096) # enc64 (v div 64) # enc64 v
         # EncodeToString src)"

text \<open>
  \<^verbatim>\<open>url.QueryEscape\<close>: letters, digits and \<open>-_.~\<close> stay, a space becomes \<open>+\<close>, every
  other byte becomes \<open>%\<close> and two upper-case hexadecimal digits.
\<close>

definition upperhex :: string where
  "upperhex = ''0123456789ABCDEF''"

definition shouldEscape :: "char \<Rightarrow> bool" where
  "shouldEscape c =
     (let n = (of_char c :: nat) in
      if (97 \<le> n \<and> n \<le> 122) \<or> (65 \<le> n \<and> n \<le> 90) \<or> (48 \<le> n \<and> n \<le> 57) then False
      else if c \<in> set ''-_.~'' then False
      else True)"

fun QueryEscape :: "string \<Rightarrow> string" where
  "QueryEscape [] = []"
| "QueryEscape (c # s) =
     (if shouldEscape c then
        (if c = CHR '' '' then CHR ''+'' # QueryEscape s
         else CHR ''%'' # upperhex ! ((of_char c :: nat) div 16)
              # upperhex ! ((of_char c :: nat) mod 16) # QueryEscape s)
      else c # QueryEscape s)"

text \<open>
  \<^verbatim>\<open>Values.Encode\<close>: the keys in sorted order (strings compare byte by byte), each value
  as \<open>key=value\<close>, both escaped, joined by \<open>&\<close>.
\<close>

fun string_le :: "string \<Rightarrow> string \<Rightarrow> bool" where
  "string_le [] t = True"
| "string_le (x # s) [] = False"
| "string_le (x # s) (y # t) =
     (if x = y then string_le s t else (of_char x :: nat) < of_char y)"

fun insert_key :: "string \<times> string list \<Rightarrow> Values \<Rightarrow> Values" where
  "insert_key e [] = [e]"
| "insert_key e (e' # v) =
     (if string_le (fst e) (fst e') then e # e' # v else e' # insert_key e v)"

definition sort_keys :: "Values \<Rightarrow> Values" where
  "sort_keys v = foldr insert_key v []"

fun join_amp :: "string list \<Rightarrow> string" where
  "join_amp [] = []"
| "join_amp [p] = p"
| "join_amp (p # q # ps) = p @ ''&'' @ join_amp (q # ps)"

definition Values_Encode :: "Values \<Rightarrow> string" where
  "Values_Encode v =
     join_amp (concat (map (\<lambda>(k, vs). map (\<lambda>val. QueryEscape k @ ''='' @ QueryEscape val) vs)
                           (sort_keys v)))"

text \<open>
  \<^verbatim>\<open>InspectOptions\<close>; a nil \<^verbatim>\<open>PublicKey\<close> is \<open>None\<close>. \<^verbatim>\<open>requestData\<close> is a struct of the
  package whose declaration is not part of the source at hand: the record has the four
  fields that \<^verbatim>\<open>Inspect\<close> sets, a map or slice left at its zero value being \<open>None\<close>.
\<close>

record InspectOptions =
  Volume :: string
  File :: string
  PublicKey :: "byte list option"

record requestData =
  customHeaders :: "Values option"
  queryValues :: "Values option"
  relPath :: string
  content :: "byte list option"

text \<open>
  Lines 466 to 489 of \<^verbatim>\<open>Inspect\<close>: the form, the method and the request data. The
  constant \<^verbatim>\<open>adminAPIPrefix\<close> is declared elsewhere in the package and is a parameter.
\<close>

definition Inspect_request :: "string \<Rightarrow> InspectOptions \<Rightarrow> string \<times> requestData" where
  "Inspect_request adminAPIPrefix d =
     (let form = Values_Set [] ''volume'' (Volume d);
          form = Values_Set form ''file'' (File d);
          form = (case PublicKey d of
                    Some pk \<Rightarrow> Values_Set form ''public-key'' (EncodeToString pk)
                  | None \<Rightarrow> form);
          reqData = \<lparr>customHeaders = None, queryValues = None,
                     relPath = adminAPIPrefix @ ''/inspect-data'', content = None\<rparr>
      in case PublicKey d of
           Some pk \<Rightarrow>
             (''POST'',
              reqData\<lparr>customHeaders :=
                        Some (Values_Set [] ''Content-Type'' ''application/x-www-form-urlencoded''),
                      content := Some (map of_char (Values_Encode form))\<rparr>)
         | None \<Rightarrow> (''GET'', reqData\<lparr>queryValues := Some form\<rparr>))"

subsection \<open>The call\<close>

text \<open>
  The collaborators of \<^verbatim>\<open>Inspect\<close> are functions of the package that are not part of the
  source at hand. \<^verbatim>\<open>executeMethod\<close> is a parameter, a field of the client: it answers a
  request with an error or with a response. The record of the client also carries the
  package constant \<^verbatim>\<open>adminAPIPrefix\<close>. Calls that act on the connection are
  recorded as events, in the order in which they happen: the request sent,
  \<^verbatim>\<open>closeResponse(resp)\<close>, and \<^verbatim>\<open>Close\<close> on a body.
\<close>

datatype event =
    Call_executeMethod string requestData
  | Call_closeResponse Response
  | Call_Close ReadCloser

text \<open>
  \<^verbatim>\<open>httpRespToErrorResponse\<close> is a parameter as well. It is handed the response and may
  act on it: it can read the body and release the response itself. So its result is the
  error it makes together with the events of its call, and nothing is assumed about the
  events. It always makes an error: the specification has every call fail on a response
  without success status, with an error derived from the status.
\<close>

record AdminClient =
  adminAPIPrefix :: string
  executeMethod :: "string \<Rightarrow> requestData \<Rightarrow> error + Response"
  httpRespToErrorResponse :: "Response \<Rightarrow> error \<times> event list"

text \<open>
  The \<^verbatim>\<open>Close\<close> of a \<^verbatim>\<open>closeWrapper\<close> is the \<^verbatim>\<open>Close\<close> of its \<^verbatim>\<open>Closer\<close>; the
  result is the list of events of the call.
\<close>

definition closeWrapper_Close :: "closeWrapper \<Rightarrow> event list" where
  "closeWrapper_Close c = [Call_Close (Closer c)]"

text \<open>
  The result of \<^verbatim>\<open>Inspect\<close> is Go's triple \<^verbatim>\<open>(key, c, err)\<close>, \<open>None\<close> being nil.
  \<open>Inspect_response\<close> is lines 496 to 527: what \<^verbatim>\<open>Inspect\<close> does with a response, together
  with the events. For a status other than 200 the source calls \<^verbatim>\<open>closeResponse(resp)\<close>
  and then \<^verbatim>\<open>httpRespToErrorResponse(resp)\<close>, whose events follow. The branch of
  format 2 in which \<^verbatim>\<open>UnreadByte\<close> fails returns without a call of \<^verbatim>\<open>closeResponse\<close>,
  as the source does.
\<close>

type_synonym Inspect_result = "byte list option \<times> closeWrapper option \<times> error option"

definition Inspect_response :: "AdminClient \<Rightarrow> Response \<Rightarrow> Inspect_result \<times> event list" where
  "Inspect_response adm resp =
     (if StatusCode resp \<noteq> 200 then
        (let (err, evs) = httpRespToErrorResponse adm resp
         in ((None, None, Some err), Call_closeResponse resp # evs))
      else
        let bior = NewReaderSize (Body resp) 4096 in
        case ReadByte bior of
          (Inl err, bior) \<Rightarrow> ((None, None, Some err), [Call_closeResponse resp])
        | (Inr format, bior) \<Rightarrow>
            if format = 1 then
              (case ReadFull bior 32 of
                 (Inl err, bior) \<Rightarrow> ((None, None, Some err), [Call_closeResponse resp])
               | (Inr key, bior) \<Rightarrow>
                   ((Some key, Some \<lparr>Reader = bior, Closer = Body resp\<rparr>, None), []))
            else if format = 2 then
              (case UnreadByte bior of
                 (Some err, bior) \<Rightarrow> ((None, None, Some err), [])
               | (None, bior) \<Rightarrow>
                   ((None, Some \<lparr>Reader = bior, Closer = Body resp\<rparr>, None), []))
            else
              ((None, None, Some (errors_New ''unknown data version'')),
               [Call_closeResponse resp]))"

definition Inspect :: "AdminClient \<Rightarrow> InspectOptions \<Rightarrow> Inspect_result \<times> event list" where
  "Inspect adm d =
     (let (method, reqData) = Inspect_request (adminAPIPrefix adm) d in
      case executeMethod adm method reqData of
        Inl err \<Rightarrow> ((None, None, Some err), [Call_executeMethod method reqData])
      | Inr resp \<Rightarrow>
          (let (res, evs) = Inspect_response adm resp
           in (res, Call_executeMethod method reqData # evs)))"

text \<open>
  The event with which \<^verbatim>\<open>Inspect\<close> sends its request, and the answer of
  \<^verbatim>\<open>executeMethod\<close> to that request.
\<close>

definition Inspect_sent :: "AdminClient \<Rightarrow> InspectOptions \<Rightarrow> event" where
  "Inspect_sent adm d =
     Call_executeMethod (fst (Inspect_request (adminAPIPrefix adm) d))
                        (snd (Inspect_request (adminAPIPrefix adm) d))"

definition Inspect_reply :: "AdminClient \<Rightarrow> InspectOptions \<Rightarrow> error + Response" where
  "Inspect_reply adm d =
     executeMethod adm (fst (Inspect_request (adminAPIPrefix adm) d))
                       (snd (Inspect_request (adminAPIPrefix adm) d))"

text \<open>
  How often a list of events releases a connection, through \<^verbatim>\<open>closeResponse\<close> or
  through the \<^verbatim>\<open>Close\<close> of a body.
\<close>

fun is_close :: "event \<Rightarrow> bool" where
  "is_close (Call_closeResponse resp) = True"
| "is_close (Call_Close body) = True"
| "is_close (Call_executeMethod method reqData) = False"

definition closes :: "event list \<Rightarrow> nat" where
  "closes evs = length (filter is_close evs)"

text \<open>
  Clients, options and responses on which the definitions are run. The client \<open>answer r\<close>
  answers every request with \<open>r\<close>; its \<^verbatim>\<open>httpRespToErrorResponse\<close> makes the error from
  the status code and releases the response once more.
\<close>

definition answer :: "error + Response \<Rightarrow> AdminClient" where
  "answer r =
     \<lparr>adminAPIPrefix = ''/v3'', executeMethod = (\<lambda>method reqData. r),
      httpRespToErrorResponse = (\<lambda>resp. (ErrorResponse (StatusCode resp), [Call_closeResponse resp]))\<rparr>"

definition ok_body :: "byte list \<Rightarrow> Response" where
  "ok_body bs = \<lparr>StatusCode = 200, Body = \<lparr>pending = bs, final = EOF\<rparr>\<rparr>"

definition broken_body :: "byte list \<Rightarrow> Response" where
  "broken_body bs =
     \<lparr>StatusCode = 200, Body = \<lparr>pending = bs, final = OtherError ''connection reset''\<rparr>\<rparr>"

definition unavailable :: Response where
  "unavailable = \<lparr>StatusCode = 503, Body = \<lparr>pending = [60, 69, 62], final = EOF\<rparr>\<rparr>"

definition refused :: error where
  "refused = OtherError ''connection refused''"

definition key_bytes :: "byte list" where
  "key_bytes = [0, 1, 2, 3, 4, 5, 6, 7, 8, 9, 10, 11, 12, 13, 14, 15, 16, 17, 18, 19, 20, 21,
                22, 23, 24, 25, 26, 27, 28, 29, 30, 31]"

definition plain_options :: InspectOptions where
  "plain_options = \<lparr>Volume = ''data 1'', File = ''bucket/xl.meta'', PublicKey = None\<rparr>"

definition keyed_options :: InspectOptions where
  "keyed_options = \<lparr>Volume = ''data 1'', File = ''bucket/xl.meta'', PublicKey = Some [77, 97]\<rparr>"

definition node_usage :: "UsageStat option list \<Rightarrow> ServerDiskHwInfo" where
  "node_usage us = \<lparr>Addr = ''node1:9000'', Usage = us, DiskHwError = []\<rparr>"

definition report :: "string \<Rightarrow> (int, unit, unit, unit) HealthInfoV2" where
  "report e = \<lparr>Version = ''2'', Error = e, TimeStamp = 1700000000, Sys = (), Perf = (),
               Minio = ()\<rparr>"

section \<open>Status of a report\<close>

text \<open>
  Claim C8. For every \<^verbatim>\<open>HealthInfoV2\<close> value, \<^verbatim>\<open>GetStatus\<close> is \<open>error\<close> when the field
  \<^verbatim>\<open>Error\<close> is a non-empty string and \<open>success\<close> when it is empty; \<^verbatim>\<open>GetError\<close> and
  \<^verbatim>\<open>GetTimestamp\<close> return the fields \<^verbatim>\<open>Error\<close> and \<^verbatim>\<open>TimeStamp\<close> unchanged.
\<close>

theorem GetStatus_of_Error:
  "(Error info \<noteq> [] \<longrightarrow> GetStatus info = ''error'') \<and>
   (Error info = [] \<longrightarrow> GetStatus info = ''success'') \<and>
   GetError info = Error info \<and> GetTimestamp info = TimeStamp info"
  by (simp add: GetStatus_def GetError_def GetTimestamp_def)

theorem GetStatus_of_Error_witness:
  "Error (report ''disk offline'') \<noteq> [] \<and> GetStatus (report ''disk offline'') = ''error'' \<and>
   Error (report []) = [] \<and> GetStatus (report []) = ''success'' \<and>
   GetError (report ''disk offline'') = ''disk offline'' \<and>
   GetTimestamp (report ''disk offline'') = 1700000000"
  using GetStatus_of_Error [of "report ''disk offline''"] GetStatus_of_Error [of "report []"]
  by (simp add: report_def)

section \<open>Capacity aggregation\<close>

lemma range_Usage_all_Some:
  "range_Usage field (map Some us) capacity = Inr (capacity + sum_list (map field us))"
  by (induction us arbitrary: capacity) (simp_all add: add.assoc)

lemma range_Usage_nil_entry:
  "None \<in> set us \<Longrightarrow> range_Usage field us capacity = Inl NilPointerDereference"
  by (induction field us capacity rule: range_Usage.induct) auto

lemma unat_sum_list_uint64:
  "unat (sum_list ws :: uint64) = sum_list (map unat ws) mod 2 ^ 64"
proof (induction ws)
  case Nil
  show ?case by simp
next
  case (Cons w ws)
  have "unat (w + sum_list ws) = (unat w + unat (sum_list ws)) mod 2 ^ 64"
    by (simp add: unat_word_ariths)
  also have "\<dots> = (unat w + sum_list (map unat ws) mod 2 ^ 64) mod 2 ^ 64"
    by (simp only: Cons.IH)
  also have "\<dots> = (unat w + sum_list (map unat ws)) mod 2 ^ 64"
    by (rule mod_add_right_eq)
  finally show ?case by simp
qed

text \<open>
  Claim C6, as the code has it. For a \<^verbatim>\<open>ServerDiskHwInfo\<close> whose usage list has no nil
  entry, its entries being the records \<open>us\<close>,
  \<^verbatim>\<open>GetTotalCapacity\<close>, \<^verbatim>\<open>GetTotalFreeCapacity\<close> and \<^verbatim>\<open>GetTotalUsedCapacity\<close> return the
  sum over all entries of the counter \<^verbatim>\<open>Total\<close>, \<^verbatim>\<open>Free\<close> and \<^verbatim>\<open>Used\<close>; the sum is
  that of \<^verbatim>\<open>uint64\<close>, and it is the sum of the numbers whenever that is below \<open>2 ^ 64\<close>.
  An empty list gives 0, and the two entries of the example give 150, 50 and 100.
\<close>

theorem getters_sum_usage:
  assumes "Usage s = map Some us"
  shows "GetTotalCapacity s = Inr (sum_list (map Total us)) \<and>
         GetTotalFreeCapacity s = Inr (sum_list (map Free us)) \<and>
         GetTotalUsedCapacity s = Inr (sum_list (map Used us)) \<and>
         (sum_list (map (\<lambda>u. unat (Total u)) us) < 2 ^ 64 \<longrightarrow>
            unat (sum_list (map Total us)) = sum_list (map (\<lambda>u. unat (Total u)) us)) \<and>
         (sum_list (map (\<lambda>u. unat (Free u)) us) < 2 ^ 64 \<longrightarrow>
            unat (sum_list (map Free us)) = sum_list (map (\<lambda>u. unat (Free u)) us)) \<and>
         (sum_list (map (\<lambda>u. unat (Used u)) us) < 2 ^ 64 \<longrightarrow>
            unat (sum_list (map Used us)) = sum_list (map (\<lambda>u. unat (Used u)) us)) \<and>
         GetTotalCapacity (s\<lparr>Usage := []\<rparr>) = Inr 0 \<and>
         GetTotalFreeCapacity (s\<lparr>Usage := []\<rparr>) = Inr 0 \<and>
         GetTotalUsedCapacity (s\<lparr>Usage := []\<rparr>) = Inr 0 \<and>
         GetTotalCapacity (s\<lparr>Usage := map Some example_usage\<rparr>) = Inr 150 \<and>
         GetTotalFreeCapacity (s\<lparr>Usage := map Some example_usage\<rparr>) = Inr 50 \<and>
         GetTotalUsedCapacity (s\<lparr>Usage := map Some example_usage\<rparr>) = Inr 100"
  using assms
  by (simp add: GetTotalCapacity_def GetTotalFreeCapacity_def GetTotalUsedCapacity_def
      range_Usage_all_Some example_usage_def unat_sum_list_uint64 comp_def)

theorem getters_sum_usage_witness:
  "Usage (node_usage (map Some example_usage)) = map Some example_usage \<and>
   sum_list (map (\<lambda>u. unat (Total u)) example_usage) < 2 ^ 64 \<and>
   GetTotalCapacity (node_usage (map Some example_usage)) = Inr (100 + 50) \<and>
   GetTotalFreeCapacity (node_usage (map Some example_usage)) = Inr (40 + 10) \<and>
   GetTotalUsedCapacity (node_usage (map Some example_usage)) = Inr (60 + 40) \<and>
   unat (sum_list (map Total example_usage)) = 150"
proof -
  have h: "Usage (node_usage (map Some example_usage)) = map Some example_usage"
    by (simp add: node_usage_def)
  show ?thesis
    using h getters_sum_usage [OF h] by (simp add: example_usage_def)
qed

text \<open>
  The claim C6 as it is written, for every value, fails: on the two entries of the example
  followed by a nil entry no getter returns the sums 150, 50 and 100, or any sum.
\<close>

theorem getters_sum_usage_counterexample:
  "GetTotalCapacity (node_usage (map Some example_usage @ [None])) \<noteq> Inr 150 \<and>
   GetTotalFreeCapacity (node_usage (map Some example_usage @ [None])) \<noteq> Inr 50 \<and>
   GetTotalUsedCapacity (node_usage (map Some example_usage @ [None])) \<noteq> Inr 100 \<and>
   GetTotalCapacity (node_usage (map Some example_usage @ [None])) = Inl NilPointerDereference \<and>
   GetTotalFreeCapacity (node_usage (map Some example_usage @ [None])) = Inl NilPointerDereference \<and>
   GetTotalUsedCapacity (node_usage (map Some example_usage @ [None])) = Inl NilPointerDereference"
  by (simp add: GetTotalCapacity_def GetTotalFreeCapacity_def GetTotalUsedCapacity_def
      node_usage_def example_usage_def)

text \<open>
  Claim C7, as the code has it. A usage list with a nil entry makes each of the three
  getters panic with a nil pointer dereference: the loop reads the counter through every
  entry and has no test for nil, so no entry is skipped or counted as zero.
\<close>

theorem getters_panic_on_nil_entry:
  assumes "None \<in> set (Usage s)"
  shows "GetTotalCapacity s = Inl NilPointerDereference \<and>
         GetTotalFreeCapacity s = Inl NilPointerDereference \<and>
         GetTotalUsedCapacity s = Inl NilPointerDereference"
  using assms
  by (simp add: GetTotalCapacity_def GetTotalFreeCapacity_def GetTotalUsedCapacity_def
      range_Usage_nil_entry)

theorem getters_panic_on_nil_entry_witness:
  "None \<in> set (Usage (node_usage [None, Some (hd example_usage)])) \<and>
   GetTotalCapacity (node_usage [None, Some (hd example_usage)]) = Inl NilPointerDereference \<and>
   GetTotalFreeCapacity (node_usage [None, Some (hd example_usage)]) = Inl NilPointerDereference \<and>
   GetTotalUsedCapacity (node_usage [None, Some (hd example_usage)]) = Inl NilPointerDereference"
proof -
  have h: "None \<in> set (Usage (node_usage [None, Some (hd example_usage)]))"
    by (simp add: node_usage_def)
  show ?thesis
    using h getters_panic_on_nil_entry [OF h] by simp
qed

text \<open>
  The claim C7 as it is written fails: with a nil entry after a populated one the getters
  do not return the sum of the other entries, they panic.
\<close>

theorem getters_nil_entry_counterexample:
  "GetTotalCapacity (node_usage [Some (hd example_usage), None]) \<noteq> Inr 100 \<and>
   GetTotalCapacity (node_usage [Some (hd example_usage), None]) = Inl NilPointerDereference \<and>
   GetTotalFreeCapacity (node_usage [Some (hd example_usage), None]) = Inl NilPointerDereference \<and>
   GetTotalUsedCapacity (node_usage [Some (hd example_usage), None]) = Inl NilPointerDereference"
  by (simp add: GetTotalCapacity_def GetTotalFreeCapacity_def GetTotalUsedCapacity_def
      node_usage_def example_usage_def)

text \<open>
  Claim C10. The getters add with the wrap-around of \<^verbatim>\<open>uint64\<close>: for a usage list
  whose entries are the records \<open>us\<close> each getter returns, and the number it returns is the
  sum of the counters modulo \<open>2 ^ 64\<close>; there is no error and no saturation.
\<close>

theorem getters_wrap_around:
  assumes "Usage s = map Some us"
  shows "(\<exists>c. GetTotalCapacity s = Inr c \<and>
              unat c = sum_list (map (\<lambda>u. unat (Total u)) us) mod 2 ^ 64) \<and>
         (\<exists>c. GetTotalFreeCapacity s = Inr c \<and>
              unat c = sum_list (map (\<lambda>u. unat (Free u)) us) mod 2 ^ 64) \<and>
         (\<exists>c. GetTotalUsedCapacity s = Inr c \<and>
              unat c = sum_list (map (\<lambda>u. unat (Used u)) us) mod 2 ^ 64)"
  using assms
  by (simp add: GetTotalCapacity_def GetTotalFreeCapacity_def GetTotalUsedCapacity_def
      range_Usage_all_Some unat_sum_list_uint64 comp_def)

theorem getters_wrap_around_witness:
  "Usage (node_usage (map Some huge_usage)) = map Some huge_usage \<and>
   sum_list (map (\<lambda>u. unat (Total u)) huge_usage) = 2 ^ 64 + 1 \<and>
   (\<exists>c. GetTotalCapacity (node_usage (map Some huge_usage)) = Inr c \<and> unat c = 1) \<and>
   (\<exists>c. GetTotalFreeCapacity (node_usage (map Some huge_usage)) = Inr c \<and> unat c = 2) \<and>
   (\<exists>c. GetTotalUsedCapacity (node_usage (map Some huge_usage)) = Inr c \<and> unat c = 3)"
proof -
  have h: "Usage (node_usage (map Some huge_usage)) = map Some huge_usage"
    by (simp add: node_usage_def)
  show ?thesis
    using h getters_wrap_around [OF h] by (simp add: huge_usage_def)
qed

section \<open>The request of Inspect\<close>


lemma Values_Encode_form:
  "Values_Encode [(''volume'', [v]), (''file'', [f]), (''public-key'', [k])] =
     ''file='' @ QueryEscape f @ ''&public-key='' @ QueryEscape k @ ''&volume='' @ QueryEscape v"
  by (simp add: Values_Encode_def sort_keys_def shouldEscape_def upperhex_def)

lemma Inspect_unfold:
  "Inspect adm d =
     (case Inspect_reply adm d of
        Inl err \<Rightarrow> ((None, None, Some err), [Inspect_sent adm d])
      | Inr resp \<Rightarrow>
          (fst (Inspect_response adm resp),
           Inspect_sent adm d # snd (Inspect_response adm resp)))"
  by (simp add: Inspect_def Inspect_reply_def Inspect_sent_def Let_def split_beta
      split: sum.split)

text \<open>
  Claim C5. Without a public key the request of \<^verbatim>\<open>Inspect\<close> is a \<open>GET\<close> that carries
  \<open>volume\<close> and \<open>file\<close> as query values and has neither a body nor a header of its own.
  With a public key it is a \<open>POST\<close> with no query values, with the content type
  \<open>application/x-www-form-urlencoded\<close>, and with the encoded form of \<open>volume\<close>, \<open>file\<close>
  and the base64 text of the key as its body. This request is the first thing every call
  of \<^verbatim>\<open>Inspect\<close> does.
\<close>

theorem Inspect_request_shape:
  "(PublicKey d = None \<longrightarrow>
      Inspect_request p d =
        (''GET'', \<lparr>customHeaders = None,
                  queryValues = Some [(''volume'', [Volume d]), (''file'', [File d])],
                  relPath = p @ ''/inspect-data'', content = None\<rparr>)) \<and>
   (PublicKey d = Some pk \<longrightarrow>
      Inspect_request p d =
        (''POST'', \<lparr>customHeaders =
                     Some [(''Content-Type'', [''application/x-www-form-urlencoded''])],
                   queryValues = None,
                   relPath = p @ ''/inspect-data'',
                   content = Some (map of_char
                     (Values_Encode [(''volume'', [Volume d]), (''file'', [File d]),
                                     (''public-key'', [EncodeToString pk])]))\<rparr>) \<and>
      Values_Encode [(''volume'', [Volume d]), (''file'', [File d]),
                     (''public-key'', [EncodeToString pk])] =
        ''file='' @ QueryEscape (File d) @ ''&public-key='' @ QueryEscape (EncodeToString pk)
        @ ''&volume='' @ QueryEscape (Volume d)) \<and>
   hd (snd (Inspect adm d)) =
     Call_executeMethod (fst (Inspect_request (adminAPIPrefix adm) d))
                        (snd (Inspect_request (adminAPIPrefix adm) d))"
  by (simp add: Inspect_request_def Values_Encode_form Inspect_unfold Inspect_sent_def
      split: sum.split)

theorem Inspect_request_shape_witness:
  "PublicKey plain_options = None \<and>
   Inspect_request ''/v3'' plain_options =
     (''GET'', \<lparr>customHeaders = None,
               queryValues = Some [(''volume'', [''data 1'']), (''file'', [''bucket/xl.meta''])],
               relPath = ''/v3/inspect-data'', content = None\<rparr>) \<and>
   PublicKey keyed_options = Some [77, 97] \<and>
   Inspect_request ''/v3'' keyed_options =
     (''POST'', \<lparr>customHeaders =
                  Some [(''Content-Type'', [''application/x-www-form-urlencoded''])],
                queryValues = None,
                relPath = ''/v3/inspect-data'',
                content = Some (map of_char
                  ''file=bucket%2Fxl.meta&public-key=TWE%3D&volume=data+1'')\<rparr>)"
proof -
  have n: "PublicKey plain_options = None"
    by (simp add: plain_options_def)
  have k: "PublicKey keyed_options = Some [77, 97]"
    by (simp add: keyed_options_def)
  have e: "EncodeToString [77, 97] = ''TWE=''"
    by (simp add: enc64_def encodeStd_def)
  have q: "QueryEscape ''bucket/xl.meta'' = ''bucket%2Fxl.meta''"
      "QueryEscape ''TWE='' = ''TWE%3D''" "QueryEscape ''data 1'' = ''data+1''"
    by (simp_all add: shouldEscape_def upperhex_def)
  have f: "File keyed_options = ''bucket/xl.meta''" "Volume keyed_options = ''data 1''"
      "File plain_options = ''bucket/xl.meta''" "Volume plain_options = ''data 1''"
    by (simp_all add: keyed_options_def plain_options_def)
  show ?thesis
    using n k
      Inspect_request_shape [of plain_options "''/v3''" "[]" "answer (Inl refused)"]
      Inspect_request_shape [of keyed_options "''/v3''" "[77, 97]" "answer (Inl refused)"]
    by (simp only: e q f) simp
qed

section \<open>The response of Inspect\<close>

lemma Inspect_response_status:
  "StatusCode resp \<noteq> 200 \<Longrightarrow>
   Inspect_response adm resp =
     ((None, None, Some (fst (httpRespToErrorResponse adm resp))),
      Call_closeResponse resp # snd (httpRespToErrorResponse adm resp))"
  by (simp add: Inspect_response_def split_beta)

lemma Inspect_response_empty:
  "StatusCode resp = 200 \<Longrightarrow> pending (Body resp) = [] \<Longrightarrow>
   Inspect_response adm resp =
     ((None, None, Some (final (Body resp))), [Call_closeResponse resp])"
  by (simp add: Inspect_response_def NewReaderSize_def ReadByte_def)

lemma Inspect_response_key:
  "StatusCode resp = 200 \<Longrightarrow> pending (Body resp) = 1 # rest \<Longrightarrow> 32 \<le> length rest \<Longrightarrow>
   Inspect_response adm resp =
     ((Some (take 32 rest),
       Some \<lparr>Reader = \<lparr>rd = (Body resp)\<lparr>pending := drop 32 rest\<rparr>,
                        lastByte = uint (rest ! 31)\<rparr>,
             Closer = Body resp\<rparr>,
       None), [])"
  by (simp add: Inspect_response_def NewReaderSize_def ReadByte_def ReadFull_def Let_def)

lemma Inspect_response_short_key:
  "StatusCode resp = 200 \<Longrightarrow> pending (Body resp) = 1 # rest \<Longrightarrow> length rest < 32 \<Longrightarrow>
   Inspect_response adm resp =
     ((None, None,
       Some (if rest \<noteq> [] \<and> final (Body resp) = EOF then ErrUnexpectedEOF
             else final (Body resp))),
      [Call_closeResponse resp])"
  by (simp add: Inspect_response_def NewReaderSize_def ReadByte_def ReadFull_def Let_def)

lemma Inspect_response_unread:
  "StatusCode resp = 200 \<Longrightarrow> pending (Body resp) = 2 # rest \<Longrightarrow>
   Inspect_response adm resp =
     ((None,
       Some \<lparr>Reader = \<lparr>rd = (Body resp)\<lparr>pending := 2 # rest\<rparr>, lastByte = -1\<rparr>,
             Closer = Body resp\<rparr>,
       None), [])"
  by (simp add: Inspect_response_def NewReaderSize_def ReadByte_def UnreadByte_def Let_def)

lemma Inspect_response_unknown:
  "StatusCode resp = 200 \<Longrightarrow> pending (Body resp) = b # rest \<Longrightarrow> b \<noteq> 1 \<Longrightarrow> b \<noteq> 2 \<Longrightarrow>
   Inspect_response adm resp =
     ((None, None, Some (errors_New ''unknown data version'')), [Call_closeResponse resp])"
  by (simp add: Inspect_response_def NewReaderSize_def ReadByte_def Let_def)

text \<open>The six ways through \<open>Inspect_response\<close>.\<close>

lemma Inspect_response_cases:
  obtains
    (status) "StatusCode resp \<noteq> 200"
  | (empty) "StatusCode resp = 200" "pending (Body resp) = []"
  | (key) rest where "StatusCode resp = 200" "pending (Body resp) = 1 # rest" "32 \<le> length rest"
  | (short) rest where "StatusCode resp = 200" "pending (Body resp) = 1 # rest" "length rest < 32"
  | (unread) rest where "StatusCode resp = 200" "pending (Body resp) = 2 # rest"
  | (unknown) b rest where "StatusCode resp = 200" "pending (Body resp) = b # rest" "b \<noteq> 1" "b \<noteq> 2"
proof (cases "StatusCode resp = 200")
  case False
  then show ?thesis by (rule status)
next
  case ok: True
  show ?thesis
  proof (cases "pending (Body resp)")
    case Nil
    with ok show ?thesis by (rule empty)
  next
    case (Cons b rest)
    consider "b = 1" "32 \<le> length rest" | "b = 1" "length rest < 32" | "b = 2" | "b \<noteq> 1" "b \<noteq> 2"
      by fastforce
    then show ?thesis
    proof cases
      case 1
      with ok Cons show ?thesis by (auto intro: key)
    next
      case 2
      with ok Cons show ?thesis by (auto intro: short)
    next
      case 3
      with ok Cons show ?thesis by (auto intro: unread)
    next
      case 4
      with ok Cons show ?thesis by (auto intro: unknown)
    qed
  qed
qed

text \<open>
  The branch in which \<^verbatim>\<open>UnreadByte\<close> fails is never taken: the byte has just been read.
\<close>

lemma UnreadByte_after_ReadByte:
  "ReadByte b = (Inr c, b') \<Longrightarrow> fst (UnreadByte b') = None \<and> rd (snd (UnreadByte b')) = rd b"
  by (auto simp: ReadByte_def UnreadByte_def split: list.splits)

lemma run_ok_body:
  "Inspect_reply (answer (Inr (ok_body bs))) d = Inr (ok_body bs)"
  "StatusCode (ok_body bs) = 200"
  "pending (Body (ok_body bs)) = bs"
  by (simp_all add: Inspect_reply_def answer_def ok_body_def)

section \<open>Decoding the response\<close>

text \<open>
  Claim C1. For every call of \<^verbatim>\<open>Inspect\<close> that succeeds on a response whose body starts
  with the byte 1, the key returned is the next 32 bytes of the body, so it is not nil
  and 32 bytes long, and the stream returned delivers the body from the byte after those
  32 on. A call that succeeds returns a key if and only if the first byte was 1. A
  response with status 200, first byte 1 and at least 32 further bytes does succeed.
\<close>

theorem Inspect_key_format:
  assumes "Inspect_reply adm d = Inr resp"
    and "pending (Body resp) = b # rest"
    and "Inspect adm d = ((key, c, err), evs)"
  shows "(err = None \<and> b = 1 \<longrightarrow>
            key = Some (take 32 rest) \<and> length (take 32 rest) = 32 \<and>
            map_option (\<lambda>cw. fst (ReadAll cw)) c = Some (drop 32 rest)) \<and>
         (err = None \<longrightarrow> (key \<noteq> None \<longleftrightarrow> b = 1)) \<and>
         (StatusCode resp = 200 \<and> b = 1 \<and> 32 \<le> length rest \<longrightarrow> err = None)"
proof (cases resp rule: Inspect_response_cases)
  case status
  with assms show ?thesis
    by (auto simp: Inspect_unfold Inspect_response_status)
next
  case empty
  with assms show ?thesis by simp
next
  case (key r)
  with assms show ?thesis
    by (auto simp: Inspect_unfold Inspect_response_key ReadAll_def)
next
  case (short r)
  with assms show ?thesis
    by (auto simp: Inspect_unfold Inspect_response_short_key)
next
  case (unread r)
  with assms show ?thesis
    by (auto simp: Inspect_unfold Inspect_response_unread)
next
  case (unknown b' r)
  with assms show ?thesis
    by (auto simp: Inspect_unfold Inspect_response_unknown)
qed

theorem Inspect_key_format_witness:
  "Inspect_reply (answer (Inr (ok_body (1 # key_bytes @ [7, 8])))) plain_options
     = Inr (ok_body (1 # key_bytes @ [7, 8])) \<and>
   pending (Body (ok_body (1 # key_bytes @ [7, 8]))) = 1 # key_bytes @ [7, 8] \<and>
   Inspect (answer (Inr (ok_body (1 # key_bytes @ [7, 8])))) plain_options =
     ((Some key_bytes,
       Some \<lparr>Reader = \<lparr>rd = \<lparr>pending = [7, 8], final = EOF\<rparr>, lastByte = 31\<rparr>,
             Closer = Body (ok_body (1 # key_bytes @ [7, 8]))\<rparr>,
       None),
      [Inspect_sent (answer (Inr (ok_body (1 # key_bytes @ [7, 8])))) plain_options]) \<and>
   length key_bytes = 32 \<and>
   fst (ReadAll \<lparr>Reader = \<lparr>rd = \<lparr>pending = [7, 8], final = EOF\<rparr>, lastByte = 31\<rparr>,
                  Closer = Body (ok_body (1 # key_bytes @ [7, 8]))\<rparr>) = [7, 8]"
proof -
  let ?resp = "ok_body (1 # key_bytes @ [7, 8])"
  let ?cw = "\<lparr>Reader = \<lparr>rd = \<lparr>pending = [7, 8], final = EOF\<rparr>, lastByte = 31\<rparr>,
              Closer = Body ?resp\<rparr>"
  have r: "Inspect_reply (answer (Inr ?resp)) plain_options = Inr ?resp"
    by (rule run_ok_body)
  have p: "pending (Body ?resp) = 1 # key_bytes @ [7, 8]"
    by (simp add: run_ok_body)
  have "Inspect_response (answer (Inr ?resp)) ?resp = ((Some key_bytes, Some ?cw, None), [])"
    by (simp add: Inspect_response_def NewReaderSize_def ReadByte_def ReadFull_def
        ok_body_def key_bytes_def)
  then have i: "Inspect (answer (Inr ?resp)) plain_options =
      ((Some key_bytes, Some ?cw, None), [Inspect_sent (answer (Inr ?resp)) plain_options])"
    by (simp only: Inspect_unfold r sum.case fst_conv snd_conv)
  show ?thesis
    using r p i Inspect_key_format [OF r p i] by (simp add: key_bytes_def)
qed

text \<open>
  Claim C2. For every call of \<^verbatim>\<open>Inspect\<close> that succeeds on a response whose body starts
  with the byte 2, the key is nil and the stream returned delivers the whole body, the
  byte 2 first: the discriminator has been put back. Such a call succeeds exactly when
  the status is 200.
\<close>

theorem Inspect_unread_format:
  assumes "Inspect_reply adm d = Inr resp"
    and "pending (Body resp) = 2 # rest"
    and "Inspect adm d = ((key, c, err), evs)"
  shows "(err = None \<longleftrightarrow> StatusCode resp = 200) \<and>
         (err = None \<longrightarrow>
            key = None \<and>
            map_option (\<lambda>cw. fst (ReadByte (Reader cw))) c = Some (Inr 2) \<and>
            map_option (\<lambda>cw. fst (ReadAll cw)) c = Some (pending (Body resp)))"
proof (cases "StatusCode resp = 200")
  case True
  with assms show ?thesis
    by (auto simp: Inspect_unfold Inspect_response_unread ReadAll_def ReadByte_def)
next
  case False
  with assms show ?thesis
    by (auto simp: Inspect_unfold Inspect_response_status)
qed

theorem Inspect_unread_format_witness:
  "Inspect_reply (answer (Inr (ok_body [2, 5, 6]))) keyed_options = Inr (ok_body [2, 5, 6]) \<and>
   pending (Body (ok_body [2, 5, 6])) = [2, 5, 6] \<and>
   Inspect (answer (Inr (ok_body [2, 5, 6]))) keyed_options =
     ((None,
       Some \<lparr>Reader = \<lparr>rd = \<lparr>pending = [2, 5, 6], final = EOF\<rparr>, lastByte = -1\<rparr>,
             Closer = Body (ok_body [2, 5, 6])\<rparr>,
       None),
      [Inspect_sent (answer (Inr (ok_body [2, 5, 6]))) keyed_options]) \<and>
   fst (ReadByte \<lparr>rd = \<lparr>pending = [2, 5, 6], final = EOF\<rparr>, lastByte = -1\<rparr>) = Inr 2"
proof -
  let ?resp = "ok_body [2, 5, 6]"
  let ?cw = "\<lparr>Reader = \<lparr>rd = \<lparr>pending = [2, 5, 6], final = EOF\<rparr>, lastByte = -1\<rparr>,
              Closer = Body ?resp\<rparr>"
  have r: "Inspect_reply (answer (Inr ?resp)) keyed_options = Inr ?resp"
    by (rule run_ok_body)
  have p: "pending (Body ?resp) = [2, 5, 6]"
    by (simp add: run_ok_body)
  have "Inspect_response (answer (Inr ?resp)) ?resp = ((None, Some ?cw, None), [])"
    by (simp add: Inspect_response_def NewReaderSize_def ReadByte_def UnreadByte_def
        ok_body_def)
  then have i: "Inspect (answer (Inr ?resp)) keyed_options =
      ((None, Some ?cw, None), [Inspect_sent (answer (Inr ?resp)) keyed_options])"
    by (simp only: Inspect_unfold r sum.case fst_conv snd_conv)
  show ?thesis
    using r p i Inspect_unread_format [OF r p i] by simp
qed

text \<open>
  Claim C3. For every call of \<^verbatim>\<open>Inspect\<close> whose response has a body that starts with a
  byte other than 1 and 2: the call fails, it returns neither a key nor a stream, and it
  has released the response with \<^verbatim>\<open>closeResponse\<close>. On a success response, the one
  whose discriminator \<^verbatim>\<open>Inspect\<close> reads, the error is \<open>unknown data version\<close> and the
  call of \<^verbatim>\<open>closeResponse\<close> is the only thing done after the request.
\<close>

theorem Inspect_unknown_format:
  assumes "Inspect_reply adm d = Inr resp"
    and "pending (Body resp) = b # rest"
    and "b \<noteq> 1" and "b \<noteq> 2"
    and "Inspect adm d = ((key, c, err), evs)"
  shows "key = None \<and> c = None \<and> err \<noteq> None \<and> Call_closeResponse resp \<in> set evs \<and>
         (StatusCode resp = 200 \<longrightarrow>
            err = Some (errors_New ''unknown data version'') \<and>
            evs = [Inspect_sent adm d, Call_closeResponse resp] \<and> closes evs = 1)"
proof (cases "StatusCode resp = 200")
  case True
  with assms show ?thesis
    by (auto simp: Inspect_unfold Inspect_response_unknown closes_def Inspect_sent_def)
next
  case False
  with assms show ?thesis
    by (auto simp: Inspect_unfold Inspect_response_status)
qed

theorem Inspect_unknown_format_witness:
  "Inspect_reply (answer (Inr (ok_body [3, 5, 6]))) plain_options = Inr (ok_body [3, 5, 6]) \<and>
   StatusCode (ok_body [3, 5, 6]) = 200 \<and>
   pending (Body (ok_body [3, 5, 6])) = [3, 5, 6] \<and>
   Inspect (answer (Inr (ok_body [3, 5, 6]))) plain_options =
     ((None, None, Some (errors_New ''unknown data version'')),
      [Inspect_sent (answer (Inr (ok_body [3, 5, 6]))) plain_options,
       Call_closeResponse (ok_body [3, 5, 6])]) \<and>
   closes [Inspect_sent (answer (Inr (ok_body [3, 5, 6]))) plain_options,
           Call_closeResponse (ok_body [3, 5, 6])] = 1"
proof -
  let ?resp = "ok_body [3, 5, 6]"
  have r: "Inspect_reply (answer (Inr ?resp)) plain_options = Inr ?resp"
    by (rule run_ok_body)
  have s: "StatusCode ?resp = 200"
    by (rule run_ok_body)
  have p: "pending (Body ?resp) = [3, 5, 6]"
    by (simp add: run_ok_body)
  have n: "(3 :: byte) \<noteq> 1" "(3 :: byte) \<noteq> 2"
    by simp_all
  have "Inspect_response (answer (Inr ?resp)) ?resp =
          ((None, None, Some (errors_New ''unknown data version'')), [Call_closeResponse ?resp])"
    by (simp add: Inspect_response_def NewReaderSize_def ReadByte_def ok_body_def)
  then have i: "Inspect (answer (Inr ?resp)) plain_options =
      ((None, None, Some (errors_New ''unknown data version'')),
       [Inspect_sent (answer (Inr ?resp)) plain_options, Call_closeResponse ?resp])"
    by (simp only: Inspect_unfold r sum.case fst_conv snd_conv)
  show ?thesis
    using r s p i Inspect_unknown_format [OF r p n i] by simp
qed

section \<open>Releasing the response\<close>

text \<open>
  Claim C4, as the code has it. Every call of \<^verbatim>\<open>Inspect\<close> sends one request. When
  \<^verbatim>\<open>executeMethod\<close> answers with an error there is no response: the call returns that
  error and releases nothing. When the response has another status than 200 the call
  fails with the error of \<^verbatim>\<open>httpRespToErrorResponse\<close>, after it has called
  \<^verbatim>\<open>closeResponse\<close> on the response and then \<^verbatim>\<open>httpRespToErrorResponse\<close>, which may
  release the response again: the response is released once and as often as that function
  releases it. When the status is 200 and the call fails, the call has released the
  response exactly once with \<^verbatim>\<open>closeResponse\<close>. A call that fails returns neither key nor
  stream. A call that succeeds has released nothing, and the \<^verbatim>\<open>Close\<close> of the stream
  returned is the \<^verbatim>\<open>Close\<close> of the body of the response, so that the body is closed
  once when the caller closes the stream.
\<close>

theorem Inspect_releases_response:
  assumes "Inspect adm d = ((key, c, err), evs)"
  shows "(Inspect_reply adm d = Inl e \<longrightarrow>
            key = None \<and> c = None \<and> err = Some e \<and> evs = [Inspect_sent adm d] \<and>
            closes evs = 0) \<and>
         (Inspect_reply adm d = Inr resp \<and> StatusCode resp \<noteq> 200 \<longrightarrow>
            key = None \<and> c = None \<and>
            err = Some (fst (httpRespToErrorResponse adm resp)) \<and>
            evs = Inspect_sent adm d # Call_closeResponse resp
                    # snd (httpRespToErrorResponse adm resp) \<and>
            closes evs = 1 + closes (snd (httpRespToErrorResponse adm resp))) \<and>
         (Inspect_reply adm d = Inr resp \<and> StatusCode resp = 200 \<and> err \<noteq> None \<longrightarrow>
            key = None \<and> c = None \<and> evs = [Inspect_sent adm d, Call_closeResponse resp] \<and>
            closes evs = 1) \<and>
         (Inspect_reply adm d = Inr resp \<and> err = None \<longrightarrow>
            StatusCode resp = 200 \<and> evs = [Inspect_sent adm d] \<and> closes evs = 0 \<and>
            map_option Closer c = Some (Body resp) \<and>
            map_option closeWrapper_Close c = Some [Call_Close (Body resp)] \<and>
            map_option (\<lambda>cw. closes (evs @ closeWrapper_Close cw)) c = Some 1)"
proof (cases "Inspect_reply adm d")
  case (Inl e')
  with assms show ?thesis
    by (auto simp: Inspect_unfold closes_def Inspect_sent_def)
next
  case (Inr resp')
  show ?thesis
  proof (cases resp' rule: Inspect_response_cases)
    case status
    with assms Inr show ?thesis
      by (auto simp: Inspect_unfold Inspect_response_status closes_def Inspect_sent_def)
  next
    case empty
    with assms Inr show ?thesis
      by (auto simp: Inspect_unfold Inspect_response_empty closes_def Inspect_sent_def)
  next
    case (key r)
    with assms Inr show ?thesis
      by (auto simp: Inspect_unfold Inspect_response_key closes_def Inspect_sent_def
          closeWrapper_Close_def)
  next
    case (short r)
    with assms Inr show ?thesis
      by (auto simp: Inspect_unfold Inspect_response_short_key closes_def Inspect_sent_def)
  next
    case (unread r)
    with assms Inr show ?thesis
      by (auto simp: Inspect_unfold Inspect_response_unread closes_def Inspect_sent_def
          closeWrapper_Close_def)
  next
    case (unknown b' r)
    with assms Inr show ?thesis
      by (auto simp: Inspect_unfold Inspect_response_unknown closes_def Inspect_sent_def)
  qed
qed

theorem Inspect_releases_response_witness:
  "Inspect (answer (Inr unavailable)) plain_options =
     ((None, None, Some (ErrorResponse 503)),
      [Inspect_sent (answer (Inr unavailable)) plain_options,
       Call_closeResponse unavailable, Call_closeResponse unavailable]) \<and>
   closes [Inspect_sent (answer (Inr unavailable)) plain_options,
           Call_closeResponse unavailable, Call_closeResponse unavailable] = 2 \<and>
   Inspect (answer (Inr (broken_body [1, 4, 5]))) plain_options =
     ((None, None, Some (OtherError ''connection reset'')),
      [Inspect_sent (answer (Inr (broken_body [1, 4, 5]))) plain_options,
       Call_closeResponse (broken_body [1, 4, 5])]) \<and>
   closes [Inspect_sent (answer (Inr (broken_body [1, 4, 5]))) plain_options,
           Call_closeResponse (broken_body [1, 4, 5])] = 1 \<and>
   Inspect (answer (Inr (ok_body [2, 5, 6]))) plain_options =
     ((None,
       Some \<lparr>Reader = \<lparr>rd = \<lparr>pending = [2, 5, 6], final = EOF\<rparr>, lastByte = -1\<rparr>,
             Closer = Body (ok_body [2, 5, 6])\<rparr>,
       None),
      [Inspect_sent (answer (Inr (ok_body [2, 5, 6]))) plain_options]) \<and>
   closes [Inspect_sent (answer (Inr (ok_body [2, 5, 6]))) plain_options] = 0 \<and>
   closeWrapper_Close
     \<lparr>Reader = \<lparr>rd = \<lparr>pending = [2, 5, 6], final = EOF\<rparr>, lastByte = -1\<rparr>,
       Closer = Body (ok_body [2, 5, 6])\<rparr> = [Call_Close (Body (ok_body [2, 5, 6]))]"
proof -
  let ?bad = "broken_body [1, 4, 5]"
  let ?good = "ok_body [2, 5, 6]"
  let ?cw = "\<lparr>Reader = \<lparr>rd = \<lparr>pending = [2, 5, 6], final = EOF\<rparr>, lastByte = -1\<rparr>,
              Closer = Body ?good\<rparr>"
  have ru: "Inspect_reply (answer (Inr unavailable)) plain_options = Inr unavailable"
    by (simp add: Inspect_reply_def answer_def)
  have rb: "Inspect_reply (answer (Inr ?bad)) plain_options = Inr ?bad"
    by (simp add: Inspect_reply_def answer_def)
  have rg: "Inspect_reply (answer (Inr ?good)) plain_options = Inr ?good"
    by (simp add: Inspect_reply_def answer_def)
  have su: "StatusCode unavailable \<noteq> 200"
    by (simp add: unavailable_def)
  have sb: "StatusCode ?bad = 200"
    by (simp add: broken_body_def)
  have hu: "httpRespToErrorResponse (answer (Inr unavailable)) unavailable =
              (ErrorResponse 503, [Call_closeResponse unavailable])"
    by (simp add: answer_def unavailable_def)
  have "Inspect_response (answer (Inr unavailable)) unavailable =
          ((None, None, Some (ErrorResponse 503)),
           [Call_closeResponse unavailable, Call_closeResponse unavailable])"
    by (simp only: Inspect_response_status [OF su] hu fst_conv snd_conv)
  then have iu: "Inspect (answer (Inr unavailable)) plain_options =
      ((None, None, Some (ErrorResponse 503)),
       [Inspect_sent (answer (Inr unavailable)) plain_options,
        Call_closeResponse unavailable, Call_closeResponse unavailable])"
    by (simp only: Inspect_unfold ru sum.case fst_conv snd_conv)
  have "Inspect_response (answer (Inr ?bad)) ?bad =
          ((None, None, Some (OtherError ''connection reset'')), [Call_closeResponse ?bad])"
    by (simp add: Inspect_response_def NewReaderSize_def ReadByte_def ReadFull_def
        broken_body_def)
  then have ib: "Inspect (answer (Inr ?bad)) plain_options =
      ((None, None, Some (OtherError ''connection reset'')),
       [Inspect_sent (answer (Inr ?bad)) plain_options, Call_closeResponse ?bad])"
    by (simp only: Inspect_unfold rb sum.case fst_conv snd_conv)
  have "Inspect_response (answer (Inr ?good)) ?good = ((None, Some ?cw, None), [])"
    by (simp add: Inspect_response_def NewReaderSize_def ReadByte_def UnreadByte_def
        ok_body_def)
  then have ig: "Inspect (answer (Inr ?good)) plain_options =
      ((None, Some ?cw, None), [Inspect_sent (answer (Inr ?good)) plain_options])"
    by (simp only: Inspect_unfold rg sum.case fst_conv snd_conv)
  have tu: "closes [Inspect_sent (answer (Inr unavailable)) plain_options,
                    Call_closeResponse unavailable, Call_closeResponse unavailable] =
            1 + closes (snd (httpRespToErrorResponse (answer (Inr unavailable)) unavailable))"
    using Inspect_releases_response [OF iu, of refused unavailable] ru su by blast
  have nb: "Some (OtherError ''connection reset'') \<noteq> None"
    by simp
  have tb: "closes [Inspect_sent (answer (Inr ?bad)) plain_options, Call_closeResponse ?bad] = 1"
    using Inspect_releases_response [OF ib, of refused ?bad] rb sb nb by blast
  have tg: "closes [Inspect_sent (answer (Inr ?good)) plain_options] = 0 \<and>
            map_option closeWrapper_Close (Some ?cw) = Some [Call_Close (Body ?good)]"
    using Inspect_releases_response [OF ig, of refused ?good] rg by blast
  have cu: "closes (snd (httpRespToErrorResponse (answer (Inr unavailable)) unavailable)) = 1"
    by (simp only: hu snd_conv) (simp add: closes_def)
  show ?thesis
    using iu ib ig tu tb tg cu by simp
qed

text \<open>
  The claim C4 as it is written fails on a call whose request is answered with an error:
  the call fails, no response is released and no stream is returned whose \<^verbatim>\<open>Close\<close>
  could release one.
\<close>

theorem Inspect_no_response_counterexample:
  "Inspect (answer (Inl refused)) plain_options =
     ((None, None, Some refused), [Inspect_sent (answer (Inl refused)) plain_options]) \<and>
   closes (snd (Inspect (answer (Inl refused)) plain_options)) = 0 \<and>
   closes (snd (Inspect (answer (Inl refused)) plain_options)) \<noteq> 1"
  by (simp add: Inspect_unfold Inspect_reply_def answer_def closes_def Inspect_sent_def)

end
